theory Spec2Isabelle
  imports Complex_Main
begin

section \<open>The collision-constrained motion core of ThreeMaze.js\<close>

text \<open>
  The component \<^verbatim>\<open>src/components/ThreeMaze.js\<close> keeps its state in React refs
  (camera, player, move state, look angles, walls, pointer lock) and mutates them from
  event handlers and from the per-frame function \<^verbatim>\<open>animate\<close>. The embedding below
  passes that state explicitly. JavaScript numbers are idealised as real numbers
  (no rounding, no NaN, no infinities); every statement in this theory is about that
  idealisation.
\<close>

subsection \<open>The part of the three.js math library that the component calls\<close>

text \<open>
  \<^verbatim>\<open>THREE.Vector3\<close>, \<^verbatim>\<open>THREE.Euler\<close>, \<^verbatim>\<open>THREE.Quaternion\<close> and
  \<^verbatim>\<open>THREE.Box3\<close> are library classes. Their methods are written here as the library
  computes them; methods that mutate \<^verbatim>\<open>this\<close> and return it become functions that
  return the new value.
\<close>

record Vector3 =
  vx :: real
  vy :: real
  vz :: real

record Euler =
  ex :: real
  ey :: real
  ez :: real

record Quaternion =
  qx :: real
  qy :: real
  qz :: real
  qw :: real

record Box3 =
  bmin :: Vector3
  bmax :: Vector3

definition Vector3_new :: "real \<Rightarrow> real \<Rightarrow> real \<Rightarrow> Vector3" where
  "Vector3_new a b c = \<lparr>vx = a, vy = b, vz = c\<rparr>"

definition Vector3_add :: "Vector3 \<Rightarrow> Vector3 \<Rightarrow> Vector3" where
  "Vector3_add u v = \<lparr>vx = vx u + vx v, vy = vy u + vy v, vz = vz u + vz v\<rparr>"

definition Vector3_multiplyScalar :: "Vector3 \<Rightarrow> real \<Rightarrow> Vector3" where
  "Vector3_multiplyScalar u s = \<lparr>vx = vx u * s, vy = vy u * s, vz = vz u * s\<rparr>"

definition Vector3_divideScalar :: "Vector3 \<Rightarrow> real \<Rightarrow> Vector3" where
  "Vector3_divideScalar u s = Vector3_multiplyScalar u (1 / s)"

definition Vector3_length :: "Vector3 \<Rightarrow> real" where
  "Vector3_length u = sqrt (vx u * vx u + vy u * vy u + vz u * vz u)"

text \<open>\<^verbatim>\<open>normalize() { return this.divideScalar( this.length() || 1 ); }\<close>: a zero
  length is falsy, so the zero vector is divided by 1.\<close>

definition Vector3_normalize :: "Vector3 \<Rightarrow> Vector3" where
  "Vector3_normalize u =
     Vector3_divideScalar u (if Vector3_length u = 0 then 1 else Vector3_length u)"

text \<open>\<^verbatim>\<open>Quaternion.setFromEuler\<close> for the default rotation order \<^verbatim>\<open>'XYZ'\<close>, the only
  order the component ever uses (it never assigns \<^verbatim>\<open>rotation.order\<close>).\<close>

definition Quaternion_setFromEuler :: "Euler \<Rightarrow> Quaternion" where
  "Quaternion_setFromEuler e =
     (let c1 = cos (ex e / 2); c2 = cos (ey e / 2); c3 = cos (ez e / 2);
          s1 = sin (ex e / 2); s2 = sin (ey e / 2); s3 = sin (ez e / 2)
      in \<lparr>qx = s1 * c2 * c3 + c1 * s2 * s3,
          qy = c1 * s2 * c3 - s1 * c2 * s3,
          qz = c1 * c2 * s3 + s1 * s2 * c3,
          qw = c1 * c2 * c3 - s1 * s2 * s3\<rparr>)"

text \<open>\<^verbatim>\<open>Vector3.applyQuaternion\<close>: with \<open>t = 2 * cross (q.xyz, v)\<close> the result is
  \<open>v + q.w * t + cross (q.xyz, t)\<close>.\<close>

definition Vector3_applyQuaternion :: "Vector3 \<Rightarrow> Quaternion \<Rightarrow> Vector3" where
  "Vector3_applyQuaternion v q =
     (let tx = 2 * (qy q * vz v - qz q * vy v);
          ty = 2 * (qz q * vx v - qx q * vz v);
          tz = 2 * (qx q * vy v - qy q * vx v)
      in \<lparr>vx = vx v + qw q * tx + qy q * tz - qz q * ty,
          vy = vy v + qw q * ty + qz q * tx - qx q * tz,
          vz = vz v + qw q * tz + qx q * ty - qy q * tx\<rparr>)"

text \<open>\<^verbatim>\<open>Box3.intersectsBox\<close>: six comparisons, all of them non-strict.\<close>

definition Box3_intersectsBox :: "Box3 \<Rightarrow> Box3 \<Rightarrow> bool" where
  "Box3_intersectsBox this box \<longleftrightarrow>
     vx (bmax box) \<ge> vx (bmin this) \<and> vx (bmin box) \<le> vx (bmax this) \<and>
     vy (bmax box) \<ge> vy (bmin this) \<and> vy (bmin box) \<le> vy (bmax this) \<and>
     vz (bmax box) \<ge> vz (bmin this) \<and> vz (bmin box) \<le> vz (bmax this)"

definition Box3_expandByPoint :: "Box3 \<Rightarrow> Vector3 \<Rightarrow> Box3" where
  "Box3_expandByPoint b p =
     \<lparr>bmin = \<lparr>vx = min (vx (bmin b)) (vx p), vy = min (vy (bmin b)) (vy p),
              vz = min (vz (bmin b)) (vz p)\<rparr>,
      bmax = \<lparr>vx = max (vx (bmax b)) (vx p), vy = max (vy (bmax b)) (vy p),
              vz = max (vz (bmax b)) (vz p)\<rparr>\<rparr>"

text \<open>\<^verbatim>\<open>Box3.setFromPoints\<close> starts from the empty box (minimum \<open>+\<infinity>\<close>, maximum
  \<open>-\<infinity>\<close>) and expands it by every point; after the first point both corners are that
  point, which is where the fold below starts. It is only ever called on the eight
  corners of a box, so the points are given as the first one and the list of the
  others.\<close>

definition Box3_setFromPoints :: "Vector3 \<Rightarrow> Vector3 list \<Rightarrow> Box3" where
  "Box3_setFromPoints p ps = foldl Box3_expandByPoint \<lparr>bmin = p, bmax = p\<rparr> ps"

subsection \<open>The component's state\<close>

record Object3D =
  position :: Vector3
  rotation :: Euler

text \<open>A wall is a mesh that carries its bounding box in \<^verbatim>\<open>userData.bbox\<close>.\<close>

record Mesh = Object3D +
  bbox :: Box3

record Player =
  height :: real
  speed :: real
  velocity :: Vector3
  onFloor :: bool

record MoveState =
  forward :: bool
  backward :: bool
  left :: bool
  right :: bool

record Rotation =
  horizontal :: real
  vertical :: real

record Pointer =
  isLocked :: bool
  prevX :: real
  prevY :: real

record State =
  cameraRef :: Object3D
  playerRef :: Player
  moveStateRef :: MoveState
  rotationRef :: Rotation
  wallsRef :: "Mesh list"
  pointerRef :: Pointer

text \<open>three.js keeps \<^verbatim>\<open>object.quaternion\<close> equal to the quaternion of
  \<^verbatim>\<open>object.rotation\<close>: every assignment to a component of the Euler angles
  recomputes it.\<close>

definition quaternion :: "'a Object3D_scheme \<Rightarrow> Quaternion" where
  "quaternion obj = Quaternion_setFromEuler (rotation obj)"

subsection \<open>Collision check (lines 378 to 399)\<close>

definition playerBBox :: "real \<Rightarrow> Vector3 \<Rightarrow> Box3" where
  "playerBBox h pos =
     \<lparr>bmin = Vector3_new (vx pos - 0.3) (vy pos - h) (vz pos - 0.3),
      bmax = Vector3_new (vx pos + 0.3) (vy pos) (vz pos + 0.3)\<rparr>"

text \<open>The \<^verbatim>\<open>for ... of\<close> loop over the walls, returning at the first hit.\<close>

fun wallLoop :: "Box3 \<Rightarrow> Mesh list \<Rightarrow> bool" where
  "wallLoop pb [] = False"
| "wallLoop pb (wall # rest) =
     (if Box3_intersectsBox pb (bbox wall) then True else wallLoop pb rest)"

text \<open>\<^verbatim>\<open>checkWallCollisions(position)\<close> reads the player's height and the wall list
  from the refs; here they are arguments.\<close>

definition checkWallCollisions :: "real \<Rightarrow> Mesh list \<Rightarrow> Vector3 \<Rightarrow> bool" where
  "checkWallCollisions h walls pos = wallLoop (playerBBox h pos) walls"

subsection \<open>Position update of the frame function (lines 438 to 444)\<close>

text \<open>The last step of \<^verbatim>\<open>animate\<close>: the new position is the camera position plus the
  velocity, and it is copied to the camera only when it collides with no wall.\<close>

definition animate_resolve :: "real \<Rightarrow> Mesh list \<Rightarrow> Vector3 \<Rightarrow> Vector3 \<Rightarrow> Vector3" where
  "animate_resolve h walls currentPosition vel =
     (let newPosition = Vector3_add currentPosition vel
      in if \<not> checkWallCollisions h walls newPosition then newPosition
         else currentPosition)"

subsection \<open>Velocity of the frame function (lines 408 to 436)\<close>

text \<open>The forward direction: the \<open>-Z\<close> axis turned by the camera's quaternion, its
  \<open>y\<close> set to 0, then normalised.\<close>

definition animate_direction :: "Quaternion \<Rightarrow> Vector3" where
  "animate_direction q =
     Vector3_normalize ((Vector3_applyQuaternion (Vector3_new 0 0 (- 1)) q)\<lparr>vy := 0\<rparr>)"

text \<open>The right vector: the \<open>+X\<close> axis turned by the camera's quaternion, then
  normalised. The source does not assign its \<open>y\<close>.\<close>

definition animate_rightVector :: "Quaternion \<Rightarrow> Vector3" where
  "animate_rightVector q =
     Vector3_normalize (Vector3_applyQuaternion (Vector3_new 1 0 0) q)"

text \<open>The velocity is reset and then receives one summand per pressed key, in the
  order forward, backward, right, left.\<close>

definition animate_velocity :: "Quaternion \<Rightarrow> MoveState \<Rightarrow> real \<Rightarrow> real \<Rightarrow> Vector3" where
  "animate_velocity q ms playerSpeed delta =
     (let direction = animate_direction q;
          rightVector = animate_rightVector q;
          v0 = Vector3_new 0 0 0;
          speed_delta = playerSpeed * delta;
          v1 = (if forward ms
                then Vector3_add v0 (Vector3_multiplyScalar direction speed_delta) else v0);
          v2 = (if backward ms
                then Vector3_add v1 (Vector3_multiplyScalar direction (- speed_delta)) else v1);
          v3 = (if right ms
                then Vector3_add v2 (Vector3_multiplyScalar rightVector speed_delta) else v2);
          v4 = (if left ms
                then Vector3_add v3 (Vector3_multiplyScalar rightVector (- speed_delta)) else v3)
      in v4)"

subsection \<open>The frame function (lines 402 to 448)\<close>

text \<open>\<^verbatim>\<open>animate\<close> with the clock's delta as an argument. Scheduling the next frame and
  rendering do not touch the state modelled here.\<close>

definition animate :: "real \<Rightarrow> State \<Rightarrow> State" where
  "animate delta s =
     (if isLocked (pointerRef s) then
        let vel = animate_velocity (quaternion (cameraRef s)) (moveStateRef s)
                    (speed (playerRef s)) delta;
            s1 = s\<lparr>playerRef := (playerRef s)\<lparr>velocity := vel\<rparr>\<rparr>
        in s1\<lparr>cameraRef := (cameraRef s1)\<lparr>position :=
                 animate_resolve (height (playerRef s1)) (wallsRef s1)
                   (position (cameraRef s1)) vel\<rparr>\<rparr>
      else s)"

subsection \<open>Mouse look (lines 182 to 209)\<close>

text \<open>A mouse event carries \<^verbatim>\<open>movementX\<close>, \<^verbatim>\<open>movementY\<close> and their vendor-prefixed
  variants; a property that the browser does not provide is \<^verbatim>\<open>undefined\<close>, here
  \<open>None\<close>.\<close>

record MouseEvent =
  movementX :: "real option"
  mozMovementX :: "real option"
  webkitMovementX :: "real option"
  movementY :: "real option"
  mozMovementY :: "real option"
  webkitMovementY :: "real option"

text \<open>JavaScript's \<^verbatim>\<open>a || b\<close> on numbers that may be undefined: the left operand when
  it is truthy (defined and not zero), the right one otherwise.\<close>

definition js_or :: "real option \<Rightarrow> real option \<Rightarrow> real option" where
  "js_or a b = (case a of None \<Rightarrow> b | Some v \<Rightarrow> if v \<noteq> 0 then Some v else b)"

definition js_or_number :: "real option \<Rightarrow> real \<Rightarrow> real" where
  "js_or_number a d = (case a of None \<Rightarrow> d | Some v \<Rightarrow> if v \<noteq> 0 then v else d)"

definition sensitivity :: real where
  "sensitivity = 0.002"

definition onMouseMove :: "MouseEvent \<Rightarrow> State \<Rightarrow> State" where
  "onMouseMove event s =
     (if isLocked (pointerRef s) then
        let mX = js_or_number
                   (js_or (js_or (movementX event) (mozMovementX event)) (webkitMovementX event)) 0;
            mY = js_or_number
                   (js_or (js_or (movementY event) (mozMovementY event)) (webkitMovementY event)) 0;
            h = horizontal (rotationRef s) - mX * sensitivity;
            v = vertical (rotationRef s) - mY * sensitivity;
            v' = max (- pi / 2) (min (pi / 2) v)
        in s\<lparr>rotationRef := \<lparr>horizontal = h, vertical = v'\<rparr>,
             cameraRef := (cameraRef s)\<lparr>rotation := (rotation (cameraRef s))\<lparr>ey := h, ex := v'\<rparr>\<rparr>\<rparr>
      else s)"

text \<open>A sequence of mouse events, handled one after the other.\<close>

fun onMouseMoves :: "MouseEvent list \<Rightarrow> State \<Rightarrow> State" where
  "onMouseMoves [] s = s"
| "onMouseMoves (event # events) s = onMouseMoves events (onMouseMove event s)"

text \<open>A mouse event of a browser that provides the unprefixed properties only.\<close>

definition lookEvent :: "real \<Rightarrow> real \<Rightarrow> MouseEvent" where
  "lookEvent dx dy =
     \<lparr>movementX = Some dx, mozMovementX = None, webkitMovementX = None,
      movementY = Some dy, mozMovementY = None, webkitMovementY = None\<rparr>"

subsection \<open>Pointer lock (lines 162 to 180)\<close>

text \<open>\<^verbatim>\<open>onPointerLockChange\<close> compares the document's pointer-lock element with the
  renderer's canvas; the outcome of that comparison is the argument. The handler also
  hides or shows the instructions element, which is not part of the state modelled
  here.\<close>

definition onPointerLockChange :: "bool \<Rightarrow> State \<Rightarrow> State" where
  "onPointerLockChange lockedOnCanvas s =
     (if lockedOnCanvas then s\<lparr>pointerRef := (pointerRef s)\<lparr>isLocked := True\<rparr>\<rparr>
      else s\<lparr>pointerRef := (pointerRef s)\<lparr>isLocked := False\<rparr>\<rparr>)"

subsection \<open>The maze (lines 259 to 283)\<close>

text \<open>\<^verbatim>\<open>new THREE.BoxGeometry(10, 3, 0.5)\<close> is centred at the origin; its bounding box
  has the half extents as corners.\<close>

definition wallGeometry_boundingBox :: Box3 where
  "wallGeometry_boundingBox =
     \<lparr>bmin = Vector3_new (- 5) (- 1.5) (- 0.25), bmax = Vector3_new 5 1.5 0.25\<rparr>"

text \<open>When the bounding box is computed the wall has no parent yet, so its world matrix
  is its local matrix, composed from its position, its quaternion and the scale 1;
  applied to a point it turns the point by the quaternion and then adds the position.\<close>

definition localToWorld :: "'a Object3D_scheme \<Rightarrow> Vector3 \<Rightarrow> Vector3" where
  "localToWorld obj p = Vector3_add (Vector3_applyQuaternion p (quaternion obj)) (position obj)"

text \<open>\<^verbatim>\<open>Box3.applyMatrix4\<close> maps the eight corners, in this order, and takes the box
  of the images. The corners are given as the first one and the list of the other
  seven.\<close>

definition Box3_firstCorner :: "Box3 \<Rightarrow> Vector3" where
  "Box3_firstCorner b = Vector3_new (vx (bmin b)) (vy (bmin b)) (vz (bmin b))"

definition Box3_otherCorners :: "Box3 \<Rightarrow> Vector3 list" where
  "Box3_otherCorners b =
     [Vector3_new (vx (bmin b)) (vy (bmin b)) (vz (bmax b)),
      Vector3_new (vx (bmin b)) (vy (bmax b)) (vz (bmin b)),
      Vector3_new (vx (bmin b)) (vy (bmax b)) (vz (bmax b)),
      Vector3_new (vx (bmax b)) (vy (bmin b)) (vz (bmin b)),
      Vector3_new (vx (bmax b)) (vy (bmin b)) (vz (bmax b)),
      Vector3_new (vx (bmax b)) (vy (bmax b)) (vz (bmin b)),
      Vector3_new (vx (bmax b)) (vy (bmax b)) (vz (bmax b))]"

text \<open>\<^verbatim>\<open>new THREE.Box3().setFromObject(wall)\<close> for a mesh with the wall geometry.\<close>

definition Box3_setFromObject :: "'a Object3D_scheme \<Rightarrow> Box3" where
  "Box3_setFromObject obj =
     Box3_setFromPoints (localToWorld obj (Box3_firstCorner wallGeometry_boundingBox))
       (map (localToWorld obj) (Box3_otherCorners wallGeometry_boundingBox))"

definition wallPositions :: "(Vector3 \<times> Euler) list" where
  "wallPositions =
     [(Vector3_new 0 1.5 (- 5), \<lparr>ex = 0, ey = 0, ez = 0\<rparr>),
      (Vector3_new 5 1.5 0, \<lparr>ex = 0, ey = pi / 2, ez = 0\<rparr>),
      (Vector3_new (- 5) 1.5 0, \<lparr>ex = 0, ey = pi / 2, ez = 0\<rparr>),
      (Vector3_new 0 1.5 5, \<lparr>ex = 0, ey = 0, ez = 0\<rparr>),
      (Vector3_new 5 1.5 10, \<lparr>ex = 0, ey = pi / 2, ez = 0\<rparr>),
      (Vector3_new 10 1.5 5, \<lparr>ex = 0, ey = 0, ez = 0\<rparr>)]"

text \<open>The body of the \<^verbatim>\<open>forEach\<close>: a mesh at the given position and rotation, with
  its bounding box stored on it.\<close>

definition createWall :: "Vector3 \<times> Euler \<Rightarrow> Mesh" where
  "createWall spec =
     (let wall = \<lparr>position = fst spec, rotation = snd spec\<rparr>
      in \<lparr>position = fst spec, rotation = snd spec, bbox = Box3_setFromObject wall\<rparr>)"

definition createMaze :: "State \<Rightarrow> State" where
  "createMaze s = s\<lparr>wallsRef := wallsRef s @ map createWall wallPositions\<rparr>"

subsection \<open>Initialisation (lines 12 to 33 and 37 to 89)\<close>

text \<open>The state once \<^verbatim>\<open>init\<close> has run: the refs hold their initial values, the camera
  stands at \<open>(1, height, 1)\<close> with no rotation, and \<^verbatim>\<open>createMaze\<close> has filled the wall
  list.\<close>

definition init :: State where
  "init = createMaze
     \<lparr>cameraRef = \<lparr>position = Vector3_new 1 1.8 1, rotation = \<lparr>ex = 0, ey = 0, ez = 0\<rparr>\<rparr>,
      playerRef = \<lparr>height = 1.8, speed = 5.0, velocity = Vector3_new 0 0 0, onFloor = True\<rparr>,
      moveStateRef = \<lparr>forward = False, backward = False, left = False, right = False\<rparr>,
      rotationRef = \<lparr>horizontal = 0, vertical = 0\<rparr>,
      wallsRef = [],
      pointerRef = \<lparr>isLocked = False, prevX = 0, prevY = 0\<rparr>\<rparr>"

subsection \<open>The collision resolver as the specification words it\<close>

text \<open>These definitions follow section 4.4 of the specification, not the source: two
  closed intervals overlap, two boxes intersect when they overlap on all three axes, the
  candidate box hangs below the candidate position, and the resolver returns the current
  position when some wall intersects the candidate box and the candidate position
  otherwise.\<close>

definition spec_overlap :: "real \<Rightarrow> real \<Rightarrow> real \<Rightarrow> real \<Rightarrow> bool" where
  "spec_overlap lo1 hi1 lo2 hi2 \<longleftrightarrow> lo1 \<le> hi2 \<and> lo2 \<le> hi1"

definition spec_intersects :: "Box3 \<Rightarrow> Box3 \<Rightarrow> bool" where
  "spec_intersects a b \<longleftrightarrow>
     spec_overlap (vx (bmin a)) (vx (bmax a)) (vx (bmin b)) (vx (bmax b)) \<and>
     spec_overlap (vy (bmin a)) (vy (bmax a)) (vy (bmin b)) (vy (bmax b)) \<and>
     spec_overlap (vz (bmin a)) (vz (bmax a)) (vz (bmin b)) (vz (bmax b))"

definition spec_candidateBox :: "real \<Rightarrow> Vector3 \<Rightarrow> Box3" where
  "spec_candidateBox h p =
     \<lparr>bmin = \<lparr>vx = vx p - 0.3, vy = vy p - h, vz = vz p - 0.3\<rparr>,
      bmax = \<lparr>vx = vx p + 0.3, vy = vy p + 0, vz = vz p + 0.3\<rparr>\<rparr>"

definition spec_resolve :: "real \<Rightarrow> Mesh list \<Rightarrow> Vector3 \<Rightarrow> Vector3 \<Rightarrow> Vector3" where
  "spec_resolve h walls currentPosition proposedVelocity =
     (let candidate = \<lparr>vx = vx currentPosition + vx proposedVelocity,
                        vy = vy currentPosition + vy proposedVelocity,
                        vz = vz currentPosition + vz proposedVelocity\<rparr>
      in if (\<exists>w \<in> set walls. spec_intersects (spec_candidateBox h candidate) (bbox w))
         then currentPosition else candidate)"

section \<open>Properties\<close>

subsection \<open>Library facts: turning a vector by the camera's quaternion\<close>

text \<open>With no roll, the quaternion of the Euler angles \<open>(p, t, 0)\<close> in the order XYZ turns
  a vector first by \<open>t\<close> about the Y axis and then by \<open>p\<close> about the world's X axis.\<close>

lemma applyQuaternion_XY:
  "Vector3_applyQuaternion v (Quaternion_setFromEuler \<lparr>ex = p, ey = t, ez = 0\<rparr>) =
     \<lparr>vx = cos t * vx v + sin t * vz v,
      vy = sin p * sin t * vx v + cos p * vy v - sin p * cos t * vz v,
      vz = - (cos p * sin t * vx v) + sin p * vy v + cos p * cos t * vz v\<rparr>"
proof -
  define a where "a = p / 2"
  define b where "b = t / 2"
  have p: "p = 2 * a" and t: "t = 2 * b"
    by (simp_all add: a_def b_def)
  have ca: "cos a * cos a + sin a * sin a = 1"
    using sin_cos_squared_add3[of a] by (simp add: algebra_simps)
  have cb: "cos b * cos b + sin b * sin b = 1"
    using sin_cos_squared_add3[of b] by (simp add: algebra_simps)
  have X: "vx v + cos a * cos b * (2 * (cos a * sin b * vz v) - 2 * (sin a * sin b * vy v)) +
        cos a * sin b * (2 * (sin a * cos b * vy v) - 2 * (cos a * sin b * vx v)) -
        sin a * sin b * (2 * (sin a * sin b * vx v) - 2 * (sin a * cos b * vz v)) =
        (cos b * cos b - sin b * sin b) * vx v + 2 * sin b * cos b * vz v"
    using ca cb by algebra
  have Y: "vy v + cos a * cos b * (2 * (sin a * sin b * vx v) - 2 * (sin a * cos b * vz v)) +
        sin a * sin b * (2 * (cos a * sin b * vz v) - 2 * (sin a * sin b * vy v)) -
        sin a * cos b * (2 * (sin a * cos b * vy v) - 2 * (cos a * sin b * vx v)) =
        4 * (sin a * (cos a * (sin b * cos b))) * vx v + (cos a * cos a - sin a * sin a) * vy v -
        2 * sin a * cos a * (cos b * cos b - sin b * sin b) * vz v"
    using ca cb by algebra
  have Z: "vz v + cos a * cos b * (2 * (sin a * cos b * vy v) - 2 * (cos a * sin b * vx v)) +
        sin a * cos b * (2 * (sin a * sin b * vx v) - 2 * (sin a * cos b * vz v)) -
        cos a * sin b * (2 * (cos a * sin b * vz v) - 2 * (sin a * sin b * vy v)) =
        2 * sin a * cos a * vy v - (cos a * cos a - sin a * sin a) * (2 * sin b * cos b) * vx v +
        (cos a * cos a - sin a * sin a) * (cos b * cos b - sin b * sin b) * vz v"
    using ca cb by algebra
  show ?thesis
    unfolding p t sin_double cos_double power2_eq_square
    by (simp add: Vector3_applyQuaternion_def Quaternion_setFromEuler_def Let_def X Y Z)
qed

lemma direction_XY:
  "animate_direction (Quaternion_setFromEuler \<lparr>ex = p, ey = t, ez = 0\<rparr>) =
     Vector3_normalize \<lparr>vx = - sin t, vy = 0, vz = - (cos p * cos t)\<rparr>"
  by (simp add: animate_direction_def applyQuaternion_XY Vector3_new_def)

lemma rightVector_XY:
  "animate_rightVector (Quaternion_setFromEuler \<lparr>ex = p, ey = t, ez = 0\<rparr>) =
     \<lparr>vx = cos t, vy = sin p * sin t, vz = - (cos p * sin t)\<rparr>"
proof -
  have "cos t * cos t + sin t * sin t = 1" and "cos p * cos p + sin p * sin p = 1"
    using sin_cos_squared_add3[of t] sin_cos_squared_add3[of p]
    by (simp_all add: algebra_simps)
  then have len: "cos t * cos t + sin p * sin t * (sin p * sin t)
                    + cos p * sin t * (cos p * sin t) = 1"
    by algebra
  show ?thesis
    by (simp add: animate_rightVector_def applyQuaternion_XY Vector3_new_def
        Vector3_normalize_def Vector3_length_def len Vector3_divideScalar_def
        Vector3_multiplyScalar_def)
qed

lemma sqrt_half: "sqrt (1 / 2) = sqrt 2 / 2"
  by (rule real_sqrt_unique) (simp_all add: power2_eq_square)

subsection \<open>The walls of the maze\<close>

lemma bbox_unrotated:
  "Box3_setFromObject \<lparr>position = Vector3_new a b c, rotation = \<lparr>ex = 0, ey = 0, ez = 0\<rparr>\<rparr> =
     \<lparr>bmin = Vector3_new (a - 5) (b - 1.5) (c - 0.25),
      bmax = Vector3_new (a + 5) (b + 1.5) (c + 0.25)\<rparr>"
  by (simp add: Box3_setFromObject_def localToWorld_def quaternion_def applyQuaternion_XY
      Box3_firstCorner_def Box3_otherCorners_def wallGeometry_boundingBox_def Vector3_new_def Vector3_add_def
      Box3_setFromPoints_def Box3_expandByPoint_def)

lemma bbox_quarter_turn:
  "Box3_setFromObject \<lparr>position = Vector3_new a b c, rotation = \<lparr>ex = 0, ey = pi / 2, ez = 0\<rparr>\<rparr> =
     \<lparr>bmin = Vector3_new (a - 0.25) (b - 1.5) (c - 5),
      bmax = Vector3_new (a + 0.25) (b + 1.5) (c + 5)\<rparr>"
  by (simp add: Box3_setFromObject_def localToWorld_def quaternion_def applyQuaternion_XY
      Box3_firstCorner_def Box3_otherCorners_def wallGeometry_boundingBox_def Vector3_new_def Vector3_add_def
      Box3_setFromPoints_def Box3_expandByPoint_def)

lemma init_bboxes:
  "map bbox (wallsRef init) =
     [\<lparr>bmin = Vector3_new (- 5) 0 (- 5.25), bmax = Vector3_new 5 3 (- 4.75)\<rparr>,
      \<lparr>bmin = Vector3_new 4.75 0 (- 5), bmax = Vector3_new 5.25 3 5\<rparr>,
      \<lparr>bmin = Vector3_new (- 5.25) 0 (- 5), bmax = Vector3_new (- 4.75) 3 5\<rparr>,
      \<lparr>bmin = Vector3_new (- 5) 0 4.75, bmax = Vector3_new 5 3 5.25\<rparr>,
      \<lparr>bmin = Vector3_new 4.75 0 5, bmax = Vector3_new 5.25 3 15\<rparr>,
      \<lparr>bmin = Vector3_new 5 0 4.75, bmax = Vector3_new 15 3 5.25\<rparr>]"
  by (simp add: init_def createMaze_def wallPositions_def createWall_def Let_def
      bbox_unrotated bbox_quarter_turn)

lemma init_height: "height (playerRef init) = 1.8"
  by (simp add: init_def createMaze_def)

lemma init_first_wall:
  "hd (wallsRef init) \<in> set (wallsRef init) \<and>
   bbox (hd (wallsRef init)) =
     \<lparr>bmin = Vector3_new (- 5) 0 (- 5.25), bmax = Vector3_new 5 3 (- 4.75)\<rparr>"
proof -
  have len: "length (wallsRef init) = 6"
    by (simp add: init_def createMaze_def wallPositions_def)
  then have ne: "wallsRef init \<noteq> []"
    by auto
  then have "hd (map bbox (wallsRef init)) = bbox (hd (wallsRef init))"
    by (simp add: hd_map)
  with ne show ?thesis
    by (simp add: init_bboxes)
qed

lemma init_first_wall_position:
  "position (hd (wallsRef init)) = Vector3_new 0 1.5 (- 5)"
  by (simp add: init_def createMaze_def wallPositions_def createWall_def Let_def)

subsection \<open>The collision check\<close>

lemma wallLoop_iff:
  "wallLoop pb walls \<longleftrightarrow> (\<exists>w \<in> set walls. Box3_intersectsBox pb (bbox w))"
  by (induction walls) auto

lemma wallLoop_map: "wallLoop pb walls = list_ex (Box3_intersectsBox pb) (map bbox walls)"
  by (induction walls) auto

lemma checkWallCollisions_iff:
  "checkWallCollisions h walls p \<longleftrightarrow>
     (\<exists>w \<in> set walls. Box3_intersectsBox (playerBBox h p) (bbox w))"
  by (simp add: checkWallCollisions_def wallLoop_iff)

lemma intersectsBox_spec: "Box3_intersectsBox a b = spec_intersects a b"
  by (auto simp: Box3_intersectsBox_def spec_intersects_def spec_overlap_def)

lemma playerBBox_spec: "playerBBox h p = spec_candidateBox h p"
  by (simp add: playerBBox_def spec_candidateBox_def Vector3_new_def)

lemma Vector3_add_zero: "Vector3_add p (Vector3_new 0 0 0) = p"
  by (simp add: Vector3_add_def Vector3_new_def)

text \<open>Evaluation of the check against the six walls of the maze.\<close>

lemma init_collides:
  "checkWallCollisions (height (playerRef init)) (wallsRef init) p \<longleftrightarrow>
     list_ex (Box3_intersectsBox (playerBBox 1.8 p)) (map bbox (wallsRef init))"
  by (simp only: init_height checkWallCollisions_def wallLoop_map)

subsection \<open>The look angles\<close>

lemma clamp_range:
  "- pi / 2 \<le> max (- pi / 2) (min (pi / 2) v) \<and> max (- pi / 2) (min (pi / 2) v) \<le> pi / 2"
proof -
  have "- pi / 2 \<le> pi / 2"
    using pi_ge_zero by linarith
  then show ?thesis
    by (auto simp: max_def min_def)
qed

lemma onMouseMove_vertical:
  assumes "- pi / 2 \<le> vertical (rotationRef s)" and "vertical (rotationRef s) \<le> pi / 2"
  shows "- pi / 2 \<le> vertical (rotationRef (onMouseMove event s)) \<and>
         vertical (rotationRef (onMouseMove event s)) \<le> pi / 2"
proof (cases "isLocked (pointerRef s)")
  case True
  then show ?thesis
    unfolding onMouseMove_def Let_def using clamp_range by simp
next
  case False
  with assms show ?thesis
    by (simp add: onMouseMove_def)
qed

subsection \<open>The velocity\<close>

lemma normalize_vy0: "vy u = 0 \<Longrightarrow> vy (Vector3_normalize u) = 0"
  by (simp add: Vector3_normalize_def Vector3_divideScalar_def Vector3_multiplyScalar_def)

lemma direction_vy: "vy (animate_direction q) = 0"
  by (simp add: animate_direction_def normalize_vy0)

lemma velocity_vy:
  "\<not> left ms \<Longrightarrow> \<not> right ms \<Longrightarrow> vy (animate_velocity q ms sp delta) = 0"
  by (simp add: animate_velocity_def Let_def Vector3_add_def Vector3_multiplyScalar_def
      Vector3_new_def direction_vy)

lemma resolve_vy: "vy V = 0 \<Longrightarrow> vy (animate_resolve h walls P V) = vy P"
  by (simp add: animate_resolve_def Let_def Vector3_add_def)

lemma init_refs:
  "rotationRef init = \<lparr>horizontal = 0, vertical = 0\<rparr>"
  "pointerRef init = \<lparr>isLocked = False, prevX = 0, prevY = 0\<rparr>"
  "position (cameraRef init) = Vector3_new 1 1.8 1"
  "rotation (cameraRef init) = \<lparr>ex = 0, ey = 0, ez = 0\<rparr>"
  "moveStateRef init = \<lparr>forward = False, backward = False, left = False, right = False\<rparr>"
  by (simp_all add: init_def createMaze_def)

lemma engaged_init:
  "isLocked (pointerRef (onPointerLockChange True init))"
  "rotationRef (onPointerLockChange True init) = \<lparr>horizontal = 0, vertical = 0\<rparr>"
  "position (cameraRef (onPointerLockChange True init)) = Vector3_new 1 1.8 1"
  by (simp_all add: onPointerLockChange_def init_refs)

text \<open>With a level look (pitch 0) the forward and right vectors are horizontal and
  perpendicular for every yaw, and the diagonal has the length \<open>|speed * delta| * sqrt 2\<close>.\<close>

lemma diagonal_level_look:
  "Vector3_length
     (animate_velocity (Quaternion_setFromEuler \<lparr>ex = 0, ey = t, ez = 0\<rparr>)
        \<lparr>forward = True, backward = False, left = False, right = True\<rparr> sp delta)
   = \<bar>sp * delta\<bar> * sqrt 2"
proof -
  define k where "k = sp * delta"
  have one: "sin t * sin t + cos t * cos t = 1"
    using sin_cos_squared_add3[of t] by (simp add: algebra_simps)
  have d: "animate_direction (Quaternion_setFromEuler \<lparr>ex = 0, ey = t, ez = 0\<rparr>)
             = \<lparr>vx = - sin t, vy = 0, vz = - cos t\<rparr>"
    by (simp add: direction_XY Vector3_normalize_def Vector3_length_def one
        Vector3_divideScalar_def Vector3_multiplyScalar_def)
  have r: "animate_rightVector (Quaternion_setFromEuler \<lparr>ex = 0, ey = t, ez = 0\<rparr>)
             = \<lparr>vx = cos t, vy = 0, vz = - sin t\<rparr>"
    by (simp add: rightVector_XY)
  have "(cos t * k - sin t * k) * (cos t * k - sin t * k)
          + (- (cos t * k) - sin t * k) * (- (cos t * k) - sin t * k) = 2 * (k * k)"
    using one by algebra
  then have "Vector3_length
     (animate_velocity (Quaternion_setFromEuler \<lparr>ex = 0, ey = t, ez = 0\<rparr>)
        \<lparr>forward = True, backward = False, left = False, right = True\<rparr> sp delta)
     = sqrt (2 * (k * k))"
    by (simp add: animate_velocity_def Let_def d r Vector3_add_def Vector3_multiplyScalar_def
        Vector3_new_def Vector3_length_def k_def algebra_simps)
  also have "\<dots> = \<bar>k\<bar> * sqrt 2"
    by (simp add: real_sqrt_mult)
  finally show ?thesis
    by (simp add: k_def)
qed

text \<open>The forward and right vectors at pitch \<open>pi / 3\<close> and yaw \<open>pi / 4\<close>.\<close>

lemma direction_pitch60_yaw45:
  "animate_direction (Quaternion_setFromEuler \<lparr>ex = pi / 3, ey = pi / 4, ez = 0\<rparr>)
     = \<lparr>vx = - (sqrt 2 / 2) * (1 / sqrt (5 / 8)), vy = 0, vz = - (sqrt 2 / 4) * (1 / sqrt (5 / 8))\<rparr>"
proof -
  have "sqrt 2 / 2 * (sqrt 2 / 2) + sqrt 2 / 4 * (sqrt 2 / 4) = 5 / 8"
    by simp
  then have len: "Vector3_length \<lparr>vx = - (sqrt 2 / 2), vy = 0, vz = - (sqrt 2 / 4)\<rparr> = sqrt (5 / 8)"
    by (simp add: Vector3_length_def)
  have nz: "sqrt (5 / 8) \<noteq> (0::real)"
    by simp
  have "animate_direction (Quaternion_setFromEuler \<lparr>ex = pi / 3, ey = pi / 4, ez = 0\<rparr>)
        = Vector3_normalize \<lparr>vx = - (sqrt 2 / 2), vy = 0, vz = - (sqrt 2 / 4)\<rparr>"
    by (simp add: direction_XY sin_45 cos_45 cos_60)
  also have "\<dots> = \<lparr>vx = - (sqrt 2 / 2) * (1 / sqrt (5 / 8)), vy = 0, vz = - (sqrt 2 / 4) * (1 / sqrt (5 / 8))\<rparr>"
    unfolding Vector3_normalize_def len using nz
    by (simp add: Vector3_divideScalar_def Vector3_multiplyScalar_def)
  finally show ?thesis .
qed

lemma rightVector_pitch60_yaw45:
  "animate_rightVector (Quaternion_setFromEuler \<lparr>ex = pi / 3, ey = pi / 4, ez = 0\<rparr>)
     = \<lparr>vx = sqrt 2 / 2, vy = sqrt 3 / 2 * (sqrt 2 / 2), vz = - (sqrt 2 / 4)\<rparr>"
  by (simp add: rightVector_XY sin_45 cos_45 cos_60 sin_60)

lemma diagonal_square_sum:
  fixes a b m :: real
  assumes "a * a = 2" "b * b = 3" "m * m = 8 / 5"
  shows "(5 * (- (a / 2) * m) + 5 * (a / 2)) * (5 * (- (a / 2) * m) + 5 * (a / 2))
         + (5 * (b / 2 * (a / 2))) * (5 * (b / 2 * (a / 2)))
         + (5 * (- (a / 4) * m) + 5 * (- (a / 4))) * (5 * (- (a / 4) * m) + 5 * (- (a / 4)))
         = 50 - 75 / 4 * m"
proof -
  have e1: "(5 * (- (a / 2) * m) + 5 * (a / 2)) * (5 * (- (a / 2) * m) + 5 * (a / 2))
         = 25 / 4 * (a * a) * (m * m) - 25 / 2 * (a * a) * m + 25 / 4 * (a * a)"
    by (simp add: algebra_simps)
  have e2: "(5 * (b / 2 * (a / 2))) * (5 * (b / 2 * (a / 2))) = 25 / 16 * (a * a) * (b * b)"
    by (simp add: algebra_simps)
  have e3: "(5 * (- (a / 4) * m) + 5 * (- (a / 4))) * (5 * (- (a / 4) * m) + 5 * (- (a / 4)))
         = 25 / 16 * (a * a) * (m * m) + 25 / 8 * (a * a) * m + 25 / 16 * (a * a)"
    by (simp add: algebra_simps)
  show ?thesis
    unfolding e1 e2 e3 assms by simp
qed

section \<open>The claims\<close>

text \<open>
  Claim C1. The collision resolver is all or nothing. For every current position,
  proposed velocity, player height and wall list, the position update of the frame
  function returns what the resolver of the specification returns: it builds the
  candidate box at the current position plus the velocity, with minimum
  \<open>position - (0.3, height, 0.3)\<close> and maximum \<open>position + (0.3, 0, 0.3)\<close>, tests it
  against the box of every wall by closed-interval overlap on all three axes, returns the
  current position when some wall intersects and the candidate position otherwise.
\<close>

theorem resolve_all_or_nothing:
  "animate_resolve h walls P V = spec_resolve h walls P V"
  by (simp add: animate_resolve_def spec_resolve_def Let_def checkWallCollisions_iff
      intersectsBox_spec playerBBox_spec Vector3_add_def)

text \<open>
  The resolver of the specification in the maze, from \<open>(0, 1.8, 1)\<close>: a move by
  \<open>(0, 0, -6)\<close> is rejected and a move by \<open>(0, 0, -1)\<close> is accepted.
\<close>

theorem resolve_all_or_nothing_witness:
  "spec_resolve (height (playerRef init)) (wallsRef init)
     (Vector3_new 0 1.8 1) (Vector3_new 0 0 (- 6)) = Vector3_new 0 1.8 1 \<and>
   spec_resolve (height (playerRef init)) (wallsRef init)
     (Vector3_new 0 1.8 1) (Vector3_new 0 0 (- 1)) = Vector3_new 0 1.8 0"
  using resolve_all_or_nothing [of "height (playerRef init)" "wallsRef init"
          "Vector3_new 0 1.8 1" "Vector3_new 0 0 (- 6)", symmetric]
        resolve_all_or_nothing [of "height (playerRef init)" "wallsRef init"
          "Vector3_new 0 1.8 1" "Vector3_new 0 0 (- 1)", symmetric]
  by (simp add: animate_resolve_def Let_def init_collides init_bboxes
      playerBBox_def Box3_intersectsBox_def Vector3_new_def Vector3_add_def)

text \<open>
  Claim C2, as stated, fails. It promises that the returned position never intersects a
  wall, with no precondition on the current position. In the maze, a player standing at
  \<open>(0, 1.8, -5)\<close>, inside the first wall, who proposes the velocity \<open>(0, 0, 0.1)\<close> is
  sent back to \<open>(0, 1.8, -5)\<close>, and the player's box there intersects that wall.
\<close>

theorem resolve_from_inside_wall:
  "hd (wallsRef init) \<in> set (wallsRef init) \<and>
   Box3_intersectsBox
     (playerBBox (height (playerRef init))
        (animate_resolve (height (playerRef init)) (wallsRef init)
           (Vector3_new 0 1.8 (- 5)) (Vector3_new 0 0 0.1)))
     (bbox (hd (wallsRef init)))"
proof -
  have "animate_resolve (height (playerRef init)) (wallsRef init)
           (Vector3_new 0 1.8 (- 5)) (Vector3_new 0 0 0.1) = Vector3_new 0 1.8 (- 5)"
    by (simp add: animate_resolve_def Let_def init_collides init_bboxes
      playerBBox_def Box3_intersectsBox_def Vector3_new_def Vector3_add_def)
  then show ?thesis
    by (simp add: init_first_wall init_height playerBBox_def Box3_intersectsBox_def Vector3_new_def)
qed

text \<open>
  Claim C2, amended. For every position whose player box intersects no wall of the
  list, every proposed velocity and every wall of the list, the player box at the
  returned position does not intersect the box of that wall.
\<close>

theorem resolve_keeps_clear:
  assumes "\<not> checkWallCollisions h walls P" and "W \<in> set walls"
  shows "\<not> Box3_intersectsBox (playerBBox h (animate_resolve h walls P V)) (bbox W)"
proof (cases "checkWallCollisions h walls (Vector3_add P V)")
  case True
  then have "animate_resolve h walls P V = P"
    by (simp add: animate_resolve_def Let_def)
  with assms show ?thesis
    by (auto simp: checkWallCollisions_iff)
next
  case False
  then have "animate_resolve h walls P V = Vector3_add P V"
    by (simp add: animate_resolve_def Let_def)
  with False assms(2) show ?thesis
    by (auto simp: checkWallCollisions_iff)
qed

text \<open>
  In the maze the position \<open>(0, 1.8, 1)\<close> is clear of every wall, and after a
  proposed move by \<open>(0, 0, -6)\<close> the returned position is clear of the first wall.
\<close>

theorem resolve_keeps_clear_witness:
  "\<not> checkWallCollisions (height (playerRef init)) (wallsRef init) (Vector3_new 0 1.8 1) \<and>
   hd (wallsRef init) \<in> set (wallsRef init) \<and>
   \<not> Box3_intersectsBox
       (playerBBox (height (playerRef init))
          (animate_resolve (height (playerRef init)) (wallsRef init)
             (Vector3_new 0 1.8 1) (Vector3_new 0 0 (- 6))))
       (bbox (hd (wallsRef init)))"
proof -
  have a: "\<not> checkWallCollisions (height (playerRef init)) (wallsRef init) (Vector3_new 0 1.8 1)"
    by (simp add: init_collides init_bboxes playerBBox_def Box3_intersectsBox_def Vector3_new_def)
  have b: "hd (wallsRef init) \<in> set (wallsRef init)"
    by (simp add: init_first_wall)
  from a b resolve_keeps_clear [OF a b, of "Vector3_new 0 0 (- 6)"] show ?thesis
    by blast
qed

text \<open>
  Claim C3 evaluated on the code. The claim says that the forward and the right vector
  are both flattened and renormalised, so that the pitch never affects the velocity. With
  the camera at pitch \<open>pi / 3\<close> and yaw \<open>pi / 4\<close> the right vector has the vertical
  component \<open>sqrt 3 / 2 * (sqrt 2 / 2)\<close>, and the velocity for the right key alone, at
  speed 5 and delta 1, rises by 5 times that. The forward vector is horizontal, but it
  points along \<open>(-2, 0, -1)\<close>, while with the same yaw and a level look it points along
  \<open>(-1, 0, -1)\<close>.
\<close>

theorem right_vector_not_flat:
  "animate_rightVector (Quaternion_setFromEuler \<lparr>ex = pi / 3, ey = pi / 4, ez = 0\<rparr>)
     = Vector3_new (sqrt 2 / 2) (sqrt 3 / 2 * (sqrt 2 / 2)) (- (sqrt 2 / 4)) \<and>
   animate_velocity (Quaternion_setFromEuler \<lparr>ex = pi / 3, ey = pi / 4, ez = 0\<rparr>)
     \<lparr>forward = False, backward = False, left = False, right = True\<rparr> 5 1
     = Vector3_new (5 * (sqrt 2 / 2)) (5 * (sqrt 3 / 2 * (sqrt 2 / 2))) (- (5 * (sqrt 2 / 4))) \<and>
   vx (animate_direction (Quaternion_setFromEuler \<lparr>ex = pi / 3, ey = pi / 4, ez = 0\<rparr>))
     = 2 * vz (animate_direction (Quaternion_setFromEuler \<lparr>ex = pi / 3, ey = pi / 4, ez = 0\<rparr>)) \<and>
   vx (animate_direction (Quaternion_setFromEuler \<lparr>ex = pi / 3, ey = pi / 4, ez = 0\<rparr>)) < 0 \<and>
   animate_direction (Quaternion_setFromEuler \<lparr>ex = 0, ey = pi / 4, ez = 0\<rparr>)
     = Vector3_new (- (sqrt 2 / 2)) 0 (- (sqrt 2 / 2))"
proof -
  have 1: "animate_rightVector (Quaternion_setFromEuler \<lparr>ex = pi / 3, ey = pi / 4, ez = 0\<rparr>)
     = Vector3_new (sqrt 2 / 2) (sqrt 3 / 2 * (sqrt 2 / 2)) (- (sqrt 2 / 4))"
    by (simp add: rightVector_pitch60_yaw45 Vector3_new_def)
  have 2: "animate_velocity (Quaternion_setFromEuler \<lparr>ex = pi / 3, ey = pi / 4, ez = 0\<rparr>)
     \<lparr>forward = False, backward = False, left = False, right = True\<rparr> 5 1
     = Vector3_new (5 * (sqrt 2 / 2)) (5 * (sqrt 3 / 2 * (sqrt 2 / 2))) (- (5 * (sqrt 2 / 4)))"
    by (simp add: animate_velocity_def Let_def rightVector_pitch60_yaw45 Vector3_add_def Vector3_multiplyScalar_def
        Vector3_new_def)
  have 3: "vx (animate_direction (Quaternion_setFromEuler \<lparr>ex = pi / 3, ey = pi / 4, ez = 0\<rparr>))
     = 2 * vz (animate_direction (Quaternion_setFromEuler \<lparr>ex = pi / 3, ey = pi / 4, ez = 0\<rparr>))"
    by (simp add: direction_pitch60_yaw45)
  have 4: "vx (animate_direction (Quaternion_setFromEuler \<lparr>ex = pi / 3, ey = pi / 4, ez = 0\<rparr>)) < 0"
    by (simp add: direction_pitch60_yaw45)
  have 5: "animate_direction (Quaternion_setFromEuler \<lparr>ex = 0, ey = pi / 4, ez = 0\<rparr>)
     = Vector3_new (- (sqrt 2 / 2)) 0 (- (sqrt 2 / 2))"
    by (simp add: direction_XY sin_45 cos_45 Vector3_new_def Vector3_normalize_def
        Vector3_length_def Vector3_divideScalar_def Vector3_multiplyScalar_def)
  from 1 2 3 4 5 show ?thesis
    by blast
qed

text \<open>
  Claim C4. In the maze that \<^verbatim>\<open>createMaze\<close> builds, the wall placed at
  \<open>(0, 1.5, -5)\<close> has the box \<open>x \<in> [-5, 5]\<close>, \<open>y \<in> [0, 3]\<close>,
  \<open>z \<in> [-5.25, -4.75]\<close>. From the position \<open>(0, 1.8, 1)\<close> the move by \<open>(0, 0, -6)\<close>,
  which proposes \<open>(0, 1.8, -5)\<close>, is rejected and the position stays; the move by
  \<open>(0, 0, -1)\<close> is accepted and the position becomes \<open>(0, 1.8, 0)\<close>.
\<close>

theorem scenario_A:
  "position (hd (wallsRef init)) = Vector3_new 0 1.5 (- 5) \<and>
   bbox (hd (wallsRef init)) =
     \<lparr>bmin = Vector3_new (- 5) 0 (- 5.25), bmax = Vector3_new 5 3 (- 4.75)\<rparr> \<and>
   animate_resolve (height (playerRef init)) (wallsRef init)
     (Vector3_new 0 1.8 1) (Vector3_new 0 0 (- 6)) = Vector3_new 0 1.8 1 \<and>
   Vector3_add (Vector3_new 0 1.8 1) (Vector3_new 0 0 (- 6)) = Vector3_new 0 1.8 (- 5) \<and>
   animate_resolve (height (playerRef init)) (wallsRef init)
     (Vector3_new 0 1.8 1) (Vector3_new 0 0 (- 1)) = Vector3_new 0 1.8 0"
proof -
  have 1: "bbox (hd (wallsRef init)) =
     \<lparr>bmin = Vector3_new (- 5) 0 (- 5.25), bmax = Vector3_new 5 3 (- 4.75)\<rparr>"
    by (simp add: init_first_wall)
  have 2: "animate_resolve (height (playerRef init)) (wallsRef init)
     (Vector3_new 0 1.8 1) (Vector3_new 0 0 (- 6)) = Vector3_new 0 1.8 1"
    by (simp add: animate_resolve_def Let_def init_collides init_bboxes
        playerBBox_def Box3_intersectsBox_def Vector3_new_def Vector3_add_def)
  have 3: "animate_resolve (height (playerRef init)) (wallsRef init)
     (Vector3_new 0 1.8 1) (Vector3_new 0 0 (- 1)) = Vector3_new 0 1.8 0"
    by (simp add: animate_resolve_def Let_def init_collides init_bboxes
        playerBBox_def Box3_intersectsBox_def Vector3_new_def Vector3_add_def)
  have 4: "Vector3_add (Vector3_new 0 1.8 1) (Vector3_new 0 0 (- 6)) = Vector3_new 0 1.8 (- 5)"
    by (simp add: Vector3_new_def Vector3_add_def)
  from 1 2 3 4 init_first_wall_position show ?thesis
    by blast
qed

text \<open>
  Claim C5 evaluated on the code. The claim says that forward and right together, at
  speed 5 and delta 1, give a displacement of length \<open>5 * sqrt 2\<close>. With the camera at
  pitch \<open>pi / 3\<close> and yaw \<open>pi / 4\<close> the length is
  \<open>sqrt (50 - 75 / 4 * (1 / sqrt (5 / 8)))\<close>, about 5.13, which is less than
  \<open>5 * sqrt 2\<close>: the forward and right vectors are not perpendicular there.
\<close>

theorem diagonal_looking_up:
  "Vector3_length
     (animate_velocity (Quaternion_setFromEuler \<lparr>ex = pi / 3, ey = pi / 4, ez = 0\<rparr>)
        \<lparr>forward = True, backward = False, left = False, right = True\<rparr> 5 1)
     = sqrt (50 - 75 / 4 * (1 / sqrt (5 / 8))) \<and>
   Vector3_length
     (animate_velocity (Quaternion_setFromEuler \<lparr>ex = pi / 3, ey = pi / 4, ez = 0\<rparr>)
        \<lparr>forward = True, backward = False, left = False, right = True\<rparr> 5 1)
     < 5 * sqrt 2"
proof -
  define m :: real where "m = 1 / sqrt (5 / 8)"
  have mpos: "0 < m"
    by (simp add: m_def)
  have "sqrt (5 / 8) * sqrt (5 / 8) = (5 / 8 :: real)"
    by simp
  then have mm: "m * m = 8 / 5"
    by (simp add: m_def)
  have v: "animate_velocity (Quaternion_setFromEuler \<lparr>ex = pi / 3, ey = pi / 4, ez = 0\<rparr>)
        \<lparr>forward = True, backward = False, left = False, right = True\<rparr> 5 1
      = \<lparr>vx = 5 * (- (sqrt 2 / 2) * m) + 5 * (sqrt 2 / 2),
         vy = 5 * (sqrt 3 / 2 * (sqrt 2 / 2)),
         vz = 5 * (- (sqrt 2 / 4) * m) + 5 * (- (sqrt 2 / 4))\<rparr>"
    by (simp add: animate_velocity_def Let_def rightVector_pitch60_yaw45 direction_pitch60_yaw45 Vector3_add_def
        Vector3_multiplyScalar_def Vector3_new_def m_def)
  have ss: "(5 * (- (sqrt 2 / 2) * m) + 5 * (sqrt 2 / 2)) * (5 * (- (sqrt 2 / 2) * m) + 5 * (sqrt 2 / 2))
         + (5 * (sqrt 3 / 2 * (sqrt 2 / 2))) * (5 * (sqrt 3 / 2 * (sqrt 2 / 2)))
         + (5 * (- (sqrt 2 / 4) * m) + 5 * (- (sqrt 2 / 4))) * (5 * (- (sqrt 2 / 4) * m) + 5 * (- (sqrt 2 / 4)))
         = 50 - 75 / 4 * m"
    by (rule diagonal_square_sum) (simp_all add: mm)
  have len: "Vector3_length
     (animate_velocity (Quaternion_setFromEuler \<lparr>ex = pi / 3, ey = pi / 4, ez = 0\<rparr>)
        \<lparr>forward = True, backward = False, left = False, right = True\<rparr> 5 1)
     = sqrt (50 - 75 / 4 * m)"
    unfolding v Vector3_length_def
    by (simp only: Vector3.select_convs ss)
  have "sqrt (50 - 75 / 4 * m) < sqrt 50"
    using mpos by (intro real_sqrt_less_mono) simp
  also have "sqrt 50 = 5 * sqrt 2"
  proof -
    have "sqrt (25 * 2) = sqrt 25 * sqrt 2"
      by (rule real_sqrt_mult)
    moreover have "sqrt 25 = 5"
      by simp
    ultimately show ?thesis
      by simp
  qed
  finally have "sqrt (50 - 75 / 4 * m) < 5 * sqrt 2" .
  with len show ?thesis
    by (simp add: m_def)
qed

text \<open>
  Claim C6. The vertical look angle stays in \<open>[-pi / 2, pi / 2]\<close>: from every state
  in which it lies in that interval, after every sequence of mouse events (looking up,
  looking down, engaged or not) it lies in that interval again.
\<close>

theorem pitch_clamp:
  assumes "- pi / 2 \<le> vertical (rotationRef s)" and "vertical (rotationRef s) \<le> pi / 2"
  shows "- pi / 2 \<le> vertical (rotationRef (onMouseMoves events s)) \<and>
         vertical (rotationRef (onMouseMoves events s)) \<le> pi / 2"
  using assms
proof (induction events arbitrary: s)
  case Nil
  then show ?case
    by simp
next
  case (Cons event events)
  have step: "- pi / 2 \<le> vertical (rotationRef (onMouseMove event s)) \<and>
         vertical (rotationRef (onMouseMove event s)) \<le> pi / 2"
    by (rule onMouseMove_vertical[OF Cons.prems])
  have "- pi / 2 \<le> vertical (rotationRef (onMouseMoves events (onMouseMove event s))) \<and>
         vertical (rotationRef (onMouseMoves events (onMouseMove event s))) \<le> pi / 2"
    using step by (intro Cons.IH) auto
  then show ?case
    by simp
qed

text \<open>
  From the initial state with the pointer locked: two events looking down by 500 units
  each and one looking up by 4000 units.
\<close>

theorem pitch_clamp_witness:
  "- pi / 2 \<le> vertical (rotationRef (onPointerLockChange True init)) \<and>
   vertical (rotationRef (onPointerLockChange True init)) \<le> pi / 2 \<and>
   - pi / 2 \<le> vertical (rotationRef
      (onMouseMoves [lookEvent 0 500, lookEvent 0 500, lookEvent 0 (- 4000)] (onPointerLockChange True init))) \<and>
   vertical (rotationRef
      (onMouseMoves [lookEvent 0 500, lookEvent 0 500, lookEvent 0 (- 4000)] (onPointerLockChange True init)))
     \<le> pi / 2"
proof -
  have a: "- pi / 2 \<le> vertical (rotationRef (onPointerLockChange True init))"
    by (simp add: engaged_init)
  have b: "vertical (rotationRef (onPointerLockChange True init)) \<le> pi / 2"
    by (simp add: engaged_init)
  from a b pitch_clamp [OF a b] show ?thesis
    by blast
qed

text \<open>
  Claim C7. For a mouse event with \<open>movementX = 100\<close> and \<open>movementY = 50\<close>: while the
  pointer is not locked the event changes neither the look angles nor the camera's
  rotation; while it is locked the horizontal angle, and with it the camera's rotation
  about Y, decreases by exactly \<open>100 * 0.002 = 0.2\<close>.
\<close>

theorem look_event_lock:
  assumes "movementX event = Some 100" and "movementY event = Some 50"
  shows "(\<not> isLocked (pointerRef s) \<longrightarrow>
            rotationRef (onMouseMove event s) = rotationRef s \<and>
            rotation (cameraRef (onMouseMove event s)) = rotation (cameraRef s)) \<and>
         (isLocked (pointerRef s) \<longrightarrow>
            horizontal (rotationRef (onMouseMove event s)) = horizontal (rotationRef s) - 0.2 \<and>
            ey (rotation (cameraRef (onMouseMove event s))) = horizontal (rotationRef s) - 0.2)"
  using assms by (simp add: onMouseMove_def Let_def js_or_def js_or_number_def sensitivity_def)

text \<open>
  The event in the initial state, which is not locked, and in the initial state after the
  lock has been granted.
\<close>

theorem look_event_lock_witness:
  "movementX (lookEvent 100 50) = Some 100 \<and> movementY (lookEvent 100 50) = Some 50 \<and>
   \<not> isLocked (pointerRef init) \<and>
   rotationRef (onMouseMove (lookEvent 100 50) init) = \<lparr>horizontal = 0, vertical = 0\<rparr> \<and>
   isLocked (pointerRef (onPointerLockChange True init)) \<and>
   horizontal (rotationRef (onMouseMove (lookEvent 100 50) (onPointerLockChange True init))) = - 0.2"
proof -
  have a: "movementX (lookEvent 100 50) = Some 100" and b: "movementY (lookEvent 100 50) = Some 50"
    by (simp_all add: lookEvent_def)
  have c: "\<not> isLocked (pointerRef init)" and d: "isLocked (pointerRef (onPointerLockChange True init))"
    by (simp_all add: init_refs engaged_init)
  from a b c d look_event_lock [OF a b, of init] look_event_lock [OF a b, of "onPointerLockChange True init"]
  show ?thesis
    by (simp add: init_refs engaged_init)
qed

text \<open>
  Claim C8. Zero-velocity idempotence: for every position, every player height and every
  wall list, the position update with the zero velocity returns the position it was
  given, whether or not the player's box at that position meets a wall.
\<close>

theorem resolve_zero_velocity:
  "animate_resolve h walls P (Vector3_new 0 0 0) = P"
  by (simp add: animate_resolve_def Vector3_add_zero Let_def)

text \<open>
  In the maze, at a position inside the first wall.
\<close>

theorem resolve_zero_velocity_witness:
  "animate_resolve (height (playerRef init)) (wallsRef init)
     (Vector3_new 0 1.8 (- 5)) (Vector3_new 0 0 0) = Vector3_new 0 1.8 (- 5) \<and>
   checkWallCollisions (height (playerRef init)) (wallsRef init) (Vector3_new 0 1.8 (- 5))"
  using resolve_zero_velocity [of "height (playerRef init)" "wallsRef init" "Vector3_new 0 1.8 (- 5)"]
  by (simp add: init_collides init_bboxes playerBBox_def Box3_intersectsBox_def Vector3_new_def)

text \<open>
  Claim C9. While the pointer is not locked, one frame leaves the camera position
  unchanged, whatever the four movement flags are.
\<close>

theorem animate_disengaged:
  assumes "\<not> isLocked (pointerRef s)"
  shows "position (cameraRef (animate delta (s\<lparr>moveStateRef := ms\<rparr>))) = position (cameraRef s)"
  using assms by (simp add: animate_def)

text \<open>
  The initial state with forward and right pressed, for a frame of one second.
\<close>

theorem animate_disengaged_witness:
  "\<not> isLocked (pointerRef init) \<and>
   position (cameraRef (animate 1
      (init\<lparr>moveStateRef := \<lparr>forward = True, backward = False, left = False, right = True\<rparr>\<rparr>)))
     = Vector3_new 1 1.8 1"
proof -
  have a: "\<not> isLocked (pointerRef init)"
    by (simp add: init_refs)
  from a animate_disengaged [OF a] show ?thesis
    by (simp add: init_refs)
qed

text \<open>
  Claim C10. If neither the left nor the right flag is set, one frame leaves the
  \<open>y\<close> coordinate of the camera position unchanged, for every camera rotation.
\<close>

theorem animate_forward_backward_level:
  assumes "\<not> left (moveStateRef s)" and "\<not> right (moveStateRef s)"
  shows "vy (position (cameraRef (animate delta s))) = vy (position (cameraRef s))"
  using assms by (simp add: animate_def Let_def resolve_vy velocity_vy)

text \<open>
  The initial state with the pointer locked, the forward key pressed and the camera at
  pitch \<open>pi / 3\<close> and yaw \<open>pi / 4\<close>, for a frame of a tenth of a second.
\<close>

theorem animate_forward_backward_level_witness:
  "\<not> left (moveStateRef ((onPointerLockChange True init)
       \<lparr>moveStateRef := \<lparr>forward = True, backward = False, left = False, right = False\<rparr>,
        cameraRef := (cameraRef init)\<lparr>rotation := \<lparr>ex = pi / 3, ey = pi / 4, ez = 0\<rparr>\<rparr>\<rparr>)) \<and>
   \<not> right (moveStateRef ((onPointerLockChange True init)
       \<lparr>moveStateRef := \<lparr>forward = True, backward = False, left = False, right = False\<rparr>,
        cameraRef := (cameraRef init)\<lparr>rotation := \<lparr>ex = pi / 3, ey = pi / 4, ez = 0\<rparr>\<rparr>\<rparr>)) \<and>
   vy (position (cameraRef (animate (1 / 10) ((onPointerLockChange True init)
       \<lparr>moveStateRef := \<lparr>forward = True, backward = False, left = False, right = False\<rparr>,
        cameraRef := (cameraRef init)\<lparr>rotation := \<lparr>ex = pi / 3, ey = pi / 4, ez = 0\<rparr>\<rparr>\<rparr>)))) = 1.8"
  using animate_forward_backward_level [of "(onPointerLockChange True init)
       \<lparr>moveStateRef := \<lparr>forward = True, backward = False, left = False, right = False\<rparr>,
        cameraRef := (cameraRef init)\<lparr>rotation := \<lparr>ex = pi / 3, ey = pi / 4, ez = 0\<rparr>\<rparr>\<rparr>" "1 / 10"]
  by (simp add: init_refs Vector3_new_def)

end
